theory Spec2Isabelle
  imports Complex_Main "HOL-Library.Sublist"
begin

section \<open>Values exchanged with the remote service\<close>

text \<open>
  The harness in \<^verbatim>\<open>test_service_api.py\<close> works on what \<^verbatim>\<open>response.json()\<close>
  returns: an arbitrary decoded JSON value. A Python \<^verbatim>\<open>str\<close> is represented by its
  UTF-8 encoding (equality and the substring test \<^verbatim>\<open>in\<close> agree on code points and on
  their UTF-8 bytes). A decoded object is an association list in insertion order, looked up
  with \<^const>\<open>map_of\<close>; a decoded \<^verbatim>\<open>dict\<close> has distinct keys.

  A Python \<^verbatim>\<open>float\<close> is a double: a finite one is carried as its exact rational value,
  next to the two infinities and NaN (which \<^verbatim>\<open>json.loads\<close> also accepts).
\<close>

datatype pyfloat = Finite rat | PosInf | NegInf | NaN

datatype json =
    JNull
  | JBool bool
  | JInt int
  | JFloat pyfloat
  | JStr string
  | JArr "json list"
  | JObj "(string \<times> json) list"

text \<open>
  Exceptions are values. \<^verbatim>\<open>pytest.fail\<close> raises \<^verbatim>\<open>Failed\<close>, which derives from
  \<^verbatim>\<open>BaseException\<close> and not from \<^verbatim>\<open>Exception\<close>; every other exception below is a
  subclass of \<^verbatim>\<open>Exception\<close>. The message of an assertion or of \<^verbatim>\<open>pytest.fail\<close> is
  kept as the data interpolated into the source's f-string.
\<close>

datatype assert_msg =
    Expected_200_201 int
  | Expected_422 int
  | Data_list_empty
  | Errors_field_missing json
  | Expected_field_error string "string list"
  | No_message
  | Expected_200_201_for_price json int
  | Tax_mismatch json pyfloat json
  | Gross_mismatch json pyfloat json
  | Could_not_create
  | Expected_200 int
  | Price_should_create json
  | Price_should_not_create json
  | Price_message_missing json
  | Name_should_create nat
  | Name_should_not_create nat

datatype exn =
    AssertionError assert_msg
  | Failed fail_msg
  | TypeError
  | KeyError string
  | AttributeError
  | IndexError
  | OverflowError
  | JSONDecodeError
  | RequestException
and fail_msg =
    Unexpected_structure "string list"
  | Could_not_parse exn

fun is_Exception :: "exn \<Rightarrow> bool" where
  "is_Exception (Failed m) = False"
| "is_Exception e = True"

record response =
  status_code :: int
  json_body :: "json option"

text \<open>\<^verbatim>\<open>response.json()\<close>: raises when the body is not valid JSON.\<close>

definition response_json :: "response \<Rightarrow> exn + json" where
  "response_json r = (case json_body r of None \<Rightarrow> Inl JSONDecodeError | Some v \<Rightarrow> Inr v)"

subsection \<open>The Python operators the harness applies to decoded values\<close>

text \<open>\<^verbatim>\<open>key in v\<close> for a \<^verbatim>\<open>str\<close> key: key membership on a dict, element membership on a
  list, substring on a str, \<^verbatim>\<open>TypeError\<close> on anything else.\<close>

fun py_in :: "string \<Rightarrow> json \<Rightarrow> exn + bool" where
  "py_in k (JObj kvs) = Inr (k \<in> set (map fst kvs))"
| "py_in k (JArr xs) = Inr (JStr k \<in> set xs)"
| "py_in k (JStr s) = Inr (sublist k s)"
| "py_in k v = Inl TypeError"

text \<open>\<^verbatim>\<open>v[key]\<close> for a \<^verbatim>\<open>str\<close> key: \<^verbatim>\<open>KeyError\<close> on a dict without the key,
  \<^verbatim>\<open>TypeError\<close> on every value that is not a dict.\<close>

fun py_getitem :: "json \<Rightarrow> string \<Rightarrow> exn + json" where
  "py_getitem (JObj kvs) k = (case map_of kvs k of None \<Rightarrow> Inl (KeyError k) | Some v \<Rightarrow> Inr v)"
| "py_getitem v k = Inl TypeError"

text \<open>\<^verbatim>\<open>list(v.keys())\<close>: only a dict has \<^verbatim>\<open>keys\<close>.\<close>

fun py_keys :: "json \<Rightarrow> exn + string list" where
  "py_keys (JObj kvs) = Inr (map fst kvs)"
| "py_keys v = Inl AttributeError"

section \<open>Response-shape normalisation\<close>

text \<open>
  \<^verbatim>\<open>extract_service_from_response\<close> (test_service_api.py, lines 42-69), statement by
  statement: the status assertion, \<^verbatim>\<open>response.json()\<close>, the \<^verbatim>\<open>uuid\<close> shape, the
  \<^verbatim>\<open>data\<close> shape with its emptiness assertion, and \<^verbatim>\<open>pytest.fail\<close> with the keys.
\<close>

definition extract_data_shape :: "json \<Rightarrow> exn + json" where
  "extract_data_shape response_data =
     (case py_in ''data'' response_data of
        Inl e \<Rightarrow> Inl e
      | Inr False \<Rightarrow>
          (case py_keys response_data of
             Inl e \<Rightarrow> Inl e
           | Inr ks \<Rightarrow> Inl (Failed (Unexpected_structure ks)))
      | Inr True \<Rightarrow>
          (case py_getitem response_data ''data'' of
             Inl e \<Rightarrow> Inl e
           | Inr (JArr []) \<Rightarrow> Inl (AssertionError Data_list_empty)
           | Inr (JArr (x # xs)) \<Rightarrow> Inr x
           | Inr d \<Rightarrow>
               (case py_keys response_data of
                  Inl e \<Rightarrow> Inl e
                | Inr ks \<Rightarrow> Inl (Failed (Unexpected_structure ks)))))"

definition extract_service_from_response :: "response \<Rightarrow> exn + json" where
  "extract_service_from_response r =
     (if status_code r \<notin> {200, 201}
      then Inl (AssertionError (Expected_200_201 (status_code r)))
      else case response_json r of
             Inl e \<Rightarrow> Inl e
           | Inr response_data \<Rightarrow>
               (case py_in ''uuid'' response_data of
                  Inl e \<Rightarrow> Inl e
                | Inr True \<Rightarrow> Inr response_data
                | Inr False \<Rightarrow> extract_data_shape response_data))"

section \<open>The remote service and the state of one test instance\<close>

text \<open>
  The calls the harness makes through \<^verbatim>\<open>requests\<close>. \<open>Post data\<close> is
  \<^verbatim>\<open>requests.post(API_URL, json=data, headers=API_HEADERS)\<close>; \<open>Delete u\<close> and \<open>Get u\<close> are
  the calls on the URL \<^verbatim>\<open>f"{API_URL}{u}"\<close>.
\<close>

datatype request = Post json | Get json | Delete json

text \<open>
  The service is outside the repository: it is a parameter that answers the \<open>n\<close>-th request
  of a test either with a response or by raising (a connection error, say).
\<close>

type_synonym network = "nat \<Rightarrow> request \<Rightarrow> exn + response"

record harness =
  created_service_uuids :: "json list"
  sent :: "request list"

definition send :: "network \<Rightarrow> request \<Rightarrow> harness \<Rightarrow> (exn + response) \<times> harness" where
  "send net req st = (net (length (sent st)) req, st\<lparr>sent := sent st @ [req]\<rparr>)"

subsection \<open>\<^verbatim>\<open>create_service\<close> (lines 71-85)\<close>

text \<open>The body of the \<^verbatim>\<open>try\<close>: extraction, the \<^verbatim>\<open>"uuid" in service\<close> test,
  and the \<^verbatim>\<open>append\<close>, which is the last statement and the only mutation.\<close>

definition track_created :: "response \<Rightarrow> harness \<Rightarrow> exn + harness" where
  "track_created r st =
     (case extract_service_from_response r of
        Inl e \<Rightarrow> Inl e
      | Inr service \<Rightarrow>
          (case py_in ''uuid'' service of
             Inl e \<Rightarrow> Inl e
           | Inr False \<Rightarrow> Inr st
           | Inr True \<Rightarrow>
               (case py_getitem service ''uuid'' of
                  Inl e \<Rightarrow> Inl e
                | Inr u \<Rightarrow>
                    Inr (st\<lparr>created_service_uuids := created_service_uuids st @ [u]\<rparr>))))"

text \<open>The bare \<^verbatim>\<open>except: pass\<close> catches every exception; the state is the one
  before the \<^verbatim>\<open>try\<close>, since nothing was appended when the body raised.\<close>

definition create_service :: "network \<Rightarrow> json \<Rightarrow> harness \<Rightarrow> (exn + response) \<times> harness" where
  "create_service net data_in st =
     (case send net (Post data_in) st of
        (Inl e, st1) \<Rightarrow> (Inl e, st1)
      | (Inr r, st1) \<Rightarrow>
          (if status_code r \<in> {200, 201}
           then (case track_created r st1 of
                   Inl e \<Rightarrow> (Inr r, st1)
                 | Inr st2 \<Rightarrow> (Inr r, st2))
           else (Inr r, st1)))"

subsection \<open>\<^verbatim>\<open>assert_validation_error\<close> (lines 87-106)\<close>

text \<open>\<^verbatim>\<open>if expected_field:\<close> is Python truthiness: \<^verbatim>\<open>None\<close> and the empty string are
  both false.\<close>

fun truthy :: "string option \<Rightarrow> bool" where
  "truthy None = False"
| "truthy (Some s) = (s \<noteq> [])"

text \<open>The body of the \<^verbatim>\<open>try\<close>. The message of the second assertion calls
  \<^verbatim>\<open>response_data['errors'].keys()\<close>, which itself raises when the value is not a dict.\<close>

definition validation_body :: "response \<Rightarrow> string option \<Rightarrow> exn + json" where
  "validation_body r expected_field =
     (case response_json r of
        Inl e \<Rightarrow> Inl e
      | Inr response_data \<Rightarrow>
          (case py_in ''errors'' response_data of
             Inl e \<Rightarrow> Inl e
           | Inr False \<Rightarrow> Inl (AssertionError (Errors_field_missing response_data))
           | Inr True \<Rightarrow>
               (if truthy expected_field
                then (case py_getitem response_data ''errors'' of
                        Inl e \<Rightarrow> Inl e
                      | Inr errs \<Rightarrow>
                          (case py_in (the expected_field) errs of
                             Inl e \<Rightarrow> Inl e
                           | Inr False \<Rightarrow>
                               (case py_keys errs of
                                  Inl e \<Rightarrow> Inl e
                                | Inr ks \<Rightarrow>
                                    Inl (AssertionError
                                          (Expected_field_error (the expected_field) ks)))
                           | Inr True \<Rightarrow> py_getitem errs (the expected_field)))
                else py_getitem response_data ''errors'')))"

text \<open>\<^verbatim>\<open>except Exception as e: pytest.fail(...)\<close>: an \<^verbatim>\<open>Exception\<close> becomes the
  failure that quotes it; anything else passes through.\<close>

definition assert_validation_error :: "response \<Rightarrow> string option \<Rightarrow> exn + json" where
  "assert_validation_error r expected_field =
     (if status_code r \<noteq> 422
      then Inl (AssertionError (Expected_422 (status_code r)))
      else case validation_body r expected_field of
             Inl e \<Rightarrow> (if is_Exception e then Inl (Failed (Could_not_parse e)) else Inl e)
           | Inr v \<Rightarrow> Inr v)"

subsection \<open>\<^verbatim>\<open>setup_and_teardown\<close> (lines 27-40)\<close>

definition setup_fixture :: "harness \<Rightarrow> harness" where
  "setup_fixture st = st\<lparr>created_service_uuids := []\<rparr>"

text \<open>One iteration of the cleanup loop: the \<^verbatim>\<open>try\<close> around \<^verbatim>\<open>requests.delete\<close>
  with its bare \<^verbatim>\<open>except: pass\<close>.\<close>

definition delete_quietly :: "network \<Rightarrow> json \<Rightarrow> harness \<Rightarrow> (exn + unit) \<times> harness" where
  "delete_quietly net u st =
     (case send net (Delete u) st of
        (Inl e, st1) \<Rightarrow> (Inr (), st1)
      | (Inr r, st1) \<Rightarrow> (Inr (), st1))"

text \<open>The \<^verbatim>\<open>for\<close> loop; an exception leaving an iteration would end the loop.\<close>

fun cleanup_loop :: "network \<Rightarrow> json list \<Rightarrow> harness \<Rightarrow> (exn + unit) \<times> harness" where
  "cleanup_loop net [] st = (Inr (), st)"
| "cleanup_loop net (u # us) st =
     (case delete_quietly net u st of
        (Inl e, st1) \<Rightarrow> (Inl e, st1)
      | (Inr x, st1) \<Rightarrow> cleanup_loop net us st1)"

definition teardown :: "network \<Rightarrow> harness \<Rightarrow> (exn + unit) \<times> harness" where
  "teardown net st = cleanup_loop net (created_service_uuids st) st"

section \<open>What the claims say about the tracked-resources list\<close>

text \<open>The identifier, if any, that a response contributes to the tracked list, in the
  words of the specification: a status of 200 or 201 whose extracted record is an object
  carrying \<^verbatim>\<open>uuid\<close>.\<close>

definition tracked_identifier :: "response \<Rightarrow> json list" where
  "tracked_identifier r =
     (if status_code r \<in> {200, 201}
      then (case extract_service_from_response r of
              Inr (JObj kvs) \<Rightarrow> (case map_of kvs ''uuid'' of Some u \<Rightarrow> [u] | None \<Rightarrow> [])
            | _ \<Rightarrow> [])
      else [])"

text \<open>\<open>created_by net st n u\<close>: the \<open>n\<close>-th request of the test was a POST answered with
  status 200 or 201 whose extracted record has \<open>u\<close> under \<^verbatim>\<open>uuid\<close>.\<close>

definition created_by :: "network \<Rightarrow> harness \<Rightarrow> nat \<Rightarrow> json \<Rightarrow> bool" where
  "created_by net st n u =
     (n < length (sent st) \<and>
      (case sent st ! n of
         Post d \<Rightarrow>
           (case net n (Post d) of
              Inr r \<Rightarrow>
                status_code r \<in> {200, 201} \<and>
                (case extract_service_from_response r of
                   Inr (JObj kvs) \<Rightarrow> map_of kvs ''uuid'' = Some u
                 | _ \<Rightarrow> False)
            | Inl e \<Rightarrow> False)
       | _ \<Rightarrow> False))"

definition tracked_invariant :: "network \<Rightarrow> harness \<Rightarrow> bool" where
  "tracked_invariant net st =
     (\<forall>u \<in> set (created_service_uuids st). \<exists>n < length (sent st). created_by net st n u)"

text \<open>
  The states a test instance can be in: after the fixture's setup, after a call of
  \<^verbatim>\<open>create_service\<close>, after a request a test body issues itself, and after the
  \<^verbatim>\<open>self.created_service_uuids.remove(...)\<close> of \<^verbatim>\<open>test_delete_service_success\<close>.
  \<^verbatim>\<open>create_service\<close> holds the only \<^verbatim>\<open>append\<close> of the file.
\<close>

inductive reachable :: "network \<Rightarrow> harness \<Rightarrow> bool" for net :: network where
  fresh: "reachable net (setup_fixture st)"
| created: "reachable net st \<Longrightarrow> reachable net (snd (create_service net d st))"
| requested: "reachable net st \<Longrightarrow> reachable net (snd (send net req st))"
| removed: "reachable net st \<Longrightarrow>
     reachable net (st\<lparr>created_service_uuids := remove1 u (created_service_uuids st)\<rparr>)"

section \<open>Configuration and the tax calculator (config.py)\<close>

text \<open>The doubles that the literals \<^verbatim>\<open>0.22\<close> and \<^verbatim>\<open>0.01\<close> denote, as exact fractions
  (\<^verbatim>\<open>(0.22).as_integer_ratio()\<close>).\<close>

definition float_0_22 :: rat where
  "float_0_22 = 7926335344172073 / 36028797018963968"

definition float_0_01 :: rat where
  "float_0_01 = 5764607523034235 / 576460752303423488"

text \<open>\<^verbatim>\<open>DB_LIMITS\<close>, each entry with the type of its literal.\<close>

record db_limits =
  name_max_length :: int
  min_int :: int
  max_int :: int
  tax_rate :: pyfloat
  price_min :: int
  quantity_min :: int
  tax_min :: pyfloat
  gross_min :: pyfloat

definition DB_LIMITS :: db_limits where
  "DB_LIMITS =
     \<lparr>name_max_length = 255,
      min_int = - 2147483648,
      max_int = 2147483647,
      tax_rate = Finite float_0_22,
      price_min = 1,
      quantity_min = 1,
      tax_min = Finite float_0_01,
      gross_min = Finite float_0_01\<rparr>"

text \<open>
  The operations of the Python run time that the repository uses and does not define are
  parameters: the product and the sum of two doubles, \<^verbatim>\<open>round(x, ndigits)\<close> on a double
  (none of the three raises), the double nearest to an integer, the text of a number in an
  f-string, and \<^verbatim>\<open>str.lower\<close>.
\<close>

record builtins =
  fmul :: "pyfloat \<Rightarrow> pyfloat \<Rightarrow> pyfloat"
  fadd :: "pyfloat \<Rightarrow> pyfloat \<Rightarrow> pyfloat"
  fround :: "pyfloat \<Rightarrow> int \<Rightarrow> pyfloat"
  fnearest :: "int \<Rightarrow> pyfloat"
  py_str :: "json \<Rightarrow> string"
  py_lower :: "string \<Rightarrow> string"

text \<open>An \<^verbatim>\<open>int\<close> operand of a float operation is converted first; the conversion raises
  \<^verbatim>\<open>OverflowError\<close> from \<open>2\<^sup>1\<^sup>0\<^sup>2\<^sup>4 - 2\<^sup>9\<^sup>7\<^sup>0\<close> on, the first integer that
  rounds beyond the largest double.\<close>

definition int_to_float :: "builtins \<Rightarrow> int \<Rightarrow> exn + pyfloat" where
  "int_to_float bi n =
     (if \<bar>n\<bar> < 2 ^ 1024 - 2 ^ 970 then Inr (fnearest bi n) else Inl OverflowError)"

text \<open>The left operand of \<^verbatim>\<open>price * rate\<close> and of \<^verbatim>\<open>price + tax\<close> as a double, the
  right operand being a float in both: a float is taken as it is, an \<^verbatim>\<open>int\<close> (or a
  \<^verbatim>\<open>bool\<close>, which is one) is converted, anything else is a \<^verbatim>\<open>TypeError\<close>.\<close>

fun float_operand :: "builtins \<Rightarrow> json \<Rightarrow> exn + pyfloat" where
  "float_operand bi (JFloat x) = Inr x"
| "float_operand bi (JInt n) = int_to_float bi n"
| "float_operand bi (JBool b) = int_to_float bi (if b then 1 else 0)"
| "float_operand bi v = Inl TypeError"

text \<open>\<^verbatim>\<open>calculate_tax\<close> and \<^verbatim>\<open>calculate_gross\<close> (config.py, lines 98-106).\<close>

definition calculate_tax :: "builtins \<Rightarrow> json \<Rightarrow> exn + pyfloat" where
  "calculate_tax bi price =
     (case float_operand bi price of
        Inl e \<Rightarrow> Inl e
      | Inr x \<Rightarrow> Inr (fround bi (fmul bi x (tax_rate DB_LIMITS)) 2))"

definition calculate_gross :: "builtins \<Rightarrow> json \<Rightarrow> exn + pyfloat" where
  "calculate_gross bi price =
     (case calculate_tax bi price of
        Inl e \<Rightarrow> Inl e
      | Inr tax \<Rightarrow>
          (case float_operand bi price of
             Inl e \<Rightarrow> Inl e
           | Inr x \<Rightarrow> Inr (fround bi (fadd bi x tax) 2)))"

text \<open>A stand-in for the parameters that does no rounding, used where a theorem is
  instantiated at a concrete input.\<close>

fun exact_mul :: "pyfloat \<Rightarrow> pyfloat \<Rightarrow> pyfloat" where
  "exact_mul (Finite a) (Finite b) = Finite (a * b)"
| "exact_mul x y = NaN"

fun exact_add :: "pyfloat \<Rightarrow> pyfloat \<Rightarrow> pyfloat" where
  "exact_add (Finite a) (Finite b) = Finite (a + b)"
| "exact_add x y = NaN"

definition exact_builtins :: builtins where
  "exact_builtins =
     \<lparr>fmul = exact_mul, fadd = exact_add, fround = (\<lambda>x n. x),
      fnearest = (\<lambda>n. Finite (of_int n)), py_str = (\<lambda>v. []), py_lower = (\<lambda>s. s)\<rparr>"

section \<open>Test bodies of test_service_api.py\<close>



















section \<open>Boundary tests of test_ui.py\<close>





















section \<open>Properties of the Python operators\<close>

lemma py_in_JObj: "py_in k (JObj kvs) = Inr (map_of kvs k \<noteq> None)"
  by (simp add: map_of_eq_None_iff)

lemma key_in_iff: "k \<in> set (map fst kvs) \<longleftrightarrow> map_of kvs k \<noteq> None"
  by (simp add: map_of_eq_None_iff)

lemma py_getitem_Inr:
  "py_getitem v k = Inr x \<longleftrightarrow> (\<exists>kvs. v = JObj kvs \<and> map_of kvs k = Some x)"
  by (cases v) (auto split: option.splits)

lemma py_in_exn: "py_in k v = Inl e \<Longrightarrow> is_Exception e"
  by (cases v) auto

lemma py_getitem_exn: "py_getitem v k = Inl e \<Longrightarrow> is_Exception e"
  by (cases v) (auto split: option.splits)

lemma py_keys_exn: "py_keys v = Inl e \<Longrightarrow> is_Exception e"
  by (cases v) auto

section \<open>Normalisation of the two response shapes\<close>

lemma extract_object:
  assumes "status_code r \<in> {200, 201}" and "json_body r = Some (JObj kvs)"
  shows "extract_service_from_response r =
     (if ''uuid'' \<in> set (map fst kvs) then Inr (JObj kvs)
      else case map_of kvs ''data'' of
             Some (JArr (x # xs)) \<Rightarrow> Inr x
           | Some (JArr []) \<Rightarrow> Inl (AssertionError Data_list_empty)
           | _ \<Rightarrow> Inl (Failed (Unexpected_structure (map fst kvs))))"
  using assms unfolding key_in_iff
  by (auto simp: extract_service_from_response_def extract_data_shape_def response_json_def
        py_in_JObj simp del: py_in.simps
      split: option.splits json.splits list.splits sum.splits bool.splits)

lemma extract_bad_status:
  "status_code r \<notin> {200, 201} \<Longrightarrow>
     extract_service_from_response r = Inl (AssertionError (Expected_200_201 (status_code r)))"
  by (simp add: extract_service_from_response_def)

lemma extract_any_body:
  assumes "status_code r \<in> {200, 201}"
  shows "extract_service_from_response r =
       (case json_body r of
          None \<Rightarrow> Inl JSONDecodeError
        | Some (JObj kvs) \<Rightarrow>
            (if ''uuid'' \<in> set (map fst kvs) then Inr (JObj kvs)
             else case map_of kvs ''data'' of
                    Some (JArr (x # xs)) \<Rightarrow> Inr x
                  | Some (JArr []) \<Rightarrow> Inl (AssertionError Data_list_empty)
                  | _ \<Rightarrow> Inl (Failed (Unexpected_structure (map fst kvs))))
        | Some (JArr xs) \<Rightarrow>
            (if JStr ''uuid'' \<in> set xs then Inr (JArr xs)
             else if JStr ''data'' \<in> set xs then Inl TypeError
             else Inl AttributeError)
        | Some (JStr s) \<Rightarrow>
            (if sublist ''uuid'' s then Inr (JStr s)
             else if sublist ''data'' s then Inl TypeError
             else Inl AttributeError)
        | Some v \<Rightarrow> Inl TypeError)"
proof (cases "json_body r")
  case None
  then show ?thesis
    using assms by (simp add: extract_service_from_response_def response_json_def)
next
  case (Some d)
  show ?thesis
  proof (cases d)
    case (JObj kvs)
    then show ?thesis using Some extract_object[OF assms, of kvs] by simp
  qed (use Some assms in \<open>simp_all add: extract_service_from_response_def
         extract_data_shape_def response_json_def\<close>)
qed

text \<open>
  C1, as stated, quantifies over every response, sends every body without \<^verbatim>\<open>uuid\<close> and
  without a non-empty \<^verbatim>\<open>data\<close> list to the error that names the keys, and accepts no
  third shape. The function first asserts the status, so a 404 carrying \<^verbatim>\<open>uuid\<close> is not
  returned; an empty \<^verbatim>\<open>data\<close> list fails the emptiness assertion, whose message names
  no key; \<^verbatim>\<open>"uuid" in response_data\<close> is also true of a string that contains
  \<^verbatim>\<open>uuid\<close> and of a list that has it as an element, and both are returned as they are;
  and a body that is no object has no keys to name: \<^verbatim>\<open>null\<close> ends in a
  \<^verbatim>\<open>TypeError\<close>, the empty list in an \<^verbatim>\<open>AttributeError\<close>.
\<close>

theorem extract_any_response_counterexample:
  "extract_service_from_response
     \<lparr>status_code = 404, json_body = Some (JObj [(''uuid'', JStr ''x'')])\<rparr>
     = Inl (AssertionError (Expected_200_201 404))
   \<and> extract_service_from_response
     \<lparr>status_code = 200, json_body = Some (JObj [(''data'', JArr [])])\<rparr>
     = Inl (AssertionError Data_list_empty)
   \<and> extract_service_from_response
     \<lparr>status_code = 200, json_body = Some (JStr ''my-uuid-string'')\<rparr>
     = Inr (JStr ''my-uuid-string'')
   \<and> extract_service_from_response
     \<lparr>status_code = 200, json_body = Some (JArr [JStr ''uuid'', JInt 7])\<rparr>
     = Inr (JArr [JStr ''uuid'', JInt 7])
   \<and> extract_service_from_response \<lparr>status_code = 200, json_body = Some JNull\<rparr>
     = Inl TypeError
   \<and> extract_service_from_response \<lparr>status_code = 200, json_body = Some (JArr [])\<rparr>
     = Inl AttributeError"
  by (simp add: extract_service_from_response_def extract_data_shape_def response_json_def
        sublist_Cons_right)

text \<open>
  C1, amended, for every response. A status that is neither 200 nor 201 fails the status
  assertion, whatever the body. With a status of 200 or 201:
  \<^item> a body that is not JSON raises the decoding error of \<^verbatim>\<open>response.json()\<close>;
  \<^item> a decoded object \<open>B\<close> with the key \<^verbatim>\<open>uuid\<close> is returned unchanged; otherwise, if
    \<open>B\<close> has \<^verbatim>\<open>data\<close> holding a non-empty list, the first element of that list is
    returned; if that list is empty, the emptiness assertion fails; in every other case the
    harness fails with the list of \<open>B\<close>'s top-level keys (empty for \<^verbatim>\<open>{}\<close>);
  \<^item> a decoded list is returned unchanged when the string \<^verbatim>\<open>uuid\<close> is one of its
    elements, and a decoded string when it contains \<^verbatim>\<open>uuid\<close>; otherwise either ends
    in a \<^verbatim>\<open>TypeError\<close> (when it contains \<^verbatim>\<open>data\<close>) or an
    \<^verbatim>\<open>AttributeError\<close>, neither of which names keys;
  \<^item> \<^verbatim>\<open>null\<close>, a boolean and a number end in a \<^verbatim>\<open>TypeError\<close>.
  So the shapes accepted are exactly these four and no other.
\<close>

theorem extract_service_from_response_shapes:
  "(status_code r \<notin> {200, 201} \<longrightarrow>
      extract_service_from_response r = Inl (AssertionError (Expected_200_201 (status_code r))))
   \<and> (status_code r \<in> {200, 201} \<longrightarrow>
      extract_service_from_response r =
       (case json_body r of
          None \<Rightarrow> Inl JSONDecodeError
        | Some (JObj kvs) \<Rightarrow>
            (if ''uuid'' \<in> set (map fst kvs) then Inr (JObj kvs)
             else case map_of kvs ''data'' of
                    Some (JArr (x # xs)) \<Rightarrow> Inr x
                  | Some (JArr []) \<Rightarrow> Inl (AssertionError Data_list_empty)
                  | _ \<Rightarrow> Inl (Failed (Unexpected_structure (map fst kvs))))
        | Some (JArr xs) \<Rightarrow>
            (if JStr ''uuid'' \<in> set xs then Inr (JArr xs)
             else if JStr ''data'' \<in> set xs then Inl TypeError
             else Inl AttributeError)
        | Some (JStr s) \<Rightarrow>
            (if sublist ''uuid'' s then Inr (JStr s)
             else if sublist ''data'' s then Inl TypeError
             else Inl AttributeError)
        | Some v \<Rightarrow> Inl TypeError))"
  using extract_any_body[of r] extract_bad_status[of r] by blast

theorem extract_service_from_response_shapes_witness:
  "extract_service_from_response
     \<lparr>status_code = 200, json_body = Some (JObj [(''uuid'', JStr ''x''), (''name'', JStr ''y'')])\<rparr>
     = Inr (JObj [(''uuid'', JStr ''x''), (''name'', JStr ''y'')])
   \<and> extract_service_from_response
     \<lparr>status_code = 201,
      json_body = Some (JObj [(''data'', JArr [JObj [(''uuid'', JStr ''x'')]]),
                              (''pagination'', JObj [])])\<rparr>
     = Inr (JObj [(''uuid'', JStr ''x'')])
   \<and> extract_service_from_response \<lparr>status_code = 200, json_body = Some (JObj [])\<rparr>
     = Inl (Failed (Unexpected_structure []))
   \<and> extract_service_from_response \<lparr>status_code = 500, json_body = Some (JObj [])\<rparr>
     = Inl (AssertionError (Expected_200_201 500))
   \<and> extract_service_from_response \<lparr>status_code = 201, json_body = Some (JArr [JInt 1])\<rparr>
     = Inl AttributeError
   \<and> extract_service_from_response \<lparr>status_code = 201, json_body = Some (JInt 5)\<rparr>
     = Inl TypeError
   \<and> extract_service_from_response \<lparr>status_code = 201, json_body = None\<rparr>
     = Inl JSONDecodeError"
  using
    extract_service_from_response_shapes
      [of "\<lparr>status_code = 200,
            json_body = Some (JObj [(''uuid'', JStr ''x''), (''name'', JStr ''y'')])\<rparr>"]
    extract_service_from_response_shapes
      [of "\<lparr>status_code = 201,
            json_body = Some (JObj [(''data'', JArr [JObj [(''uuid'', JStr ''x'')]]),
                                    (''pagination'', JObj [])])\<rparr>"]
    extract_service_from_response_shapes
      [of "\<lparr>status_code = 200, json_body = Some (JObj [])\<rparr>"]
    extract_service_from_response_shapes
      [of "\<lparr>status_code = 500, json_body = Some (JObj [])\<rparr>"]
    extract_service_from_response_shapes
      [of "\<lparr>status_code = 201, json_body = Some (JArr [JInt 1])\<rparr>"]
    extract_service_from_response_shapes
      [of "\<lparr>status_code = 201, json_body = Some (JInt 5)\<rparr>"]
    extract_service_from_response_shapes
      [of "\<lparr>status_code = 201, json_body = None\<rparr>"]
  by simp

section \<open>Creating a service and tracking it\<close>

lemma track_created_cases:
  "track_created r st =
     (case extract_service_from_response r of
        Inl e \<Rightarrow> Inl e
      | Inr service \<Rightarrow>
          (case py_in ''uuid'' service of
             Inl e \<Rightarrow> Inl e
           | Inr False \<Rightarrow> Inr st
           | Inr True \<Rightarrow>
              (case service of
                 JObj kvs \<Rightarrow>
                   (case map_of kvs ''uuid'' of
                      Some u \<Rightarrow>
                        Inr (st\<lparr>created_service_uuids := created_service_uuids st @ [u]\<rparr>)
                    | None \<Rightarrow> Inl (KeyError ''uuid''))
               | _ \<Rightarrow> Inl TypeError)))"
  by (auto simp: track_created_def split: sum.splits bool.splits json.splits option.splits)

lemma create_service_answered:
  assumes "net (length (sent st)) (Post d) = Inr r"
  shows "create_service net d st =
          (Inr r, st\<lparr>sent := sent st @ [Post d],
                     created_service_uuids := created_service_uuids st @ tracked_identifier r\<rparr>)"
  using assms
  by (auto simp: create_service_def send_def track_created_cases tracked_identifier_def py_in_JObj
           simp del: py_in.simps
           split: sum.splits bool.splits json.splits option.splits)

lemma create_service_raised:
  assumes "net (length (sent st)) (Post d) = Inl e"
  shows "create_service net d st = (Inl e, st\<lparr>sent := sent st @ [Post d]\<rparr>)"
  using assms by (simp add: create_service_def send_def)

lemma tracked_identifier_mem:
  "u \<in> set (tracked_identifier r) \<longleftrightarrow>
     status_code r \<in> {200, 201} \<and>
     (\<exists>kvs. extract_service_from_response r = Inr (JObj kvs) \<and> map_of kvs ''uuid'' = Some u)"
proof (cases "status_code r \<in> {200, 201}")
  case False
  then show ?thesis unfolding tracked_identifier_def by simp
next
  case True
  show ?thesis
  proof (cases "extract_service_from_response r")
    case (Inl e)
    then show ?thesis using True unfolding tracked_identifier_def by simp
  next
    case (Inr service)
    then show ?thesis using True unfolding tracked_identifier_def
      by (cases service) (auto split: option.splits)
  qed
qed

lemma tracked_identifier_failed:
  "extract_service_from_response r = Inl e \<Longrightarrow> tracked_identifier r = []"
  by (simp add: tracked_identifier_def)

text \<open>
  C3: whenever the POST is answered by a response \<open>r\<close>, \<^verbatim>\<open>create_service\<close> has issued
  exactly that one request and returns \<open>r\<close> itself. The tracked list grows by the identifier
  of the extracted record exactly when the status is 200 or 201 and extraction yields an
  object carrying \<^verbatim>\<open>uuid\<close> (\<^const>\<open>tracked_identifier\<close>); when extraction fails, the
  failure is swallowed: \<open>r\<close> is still returned and nothing is tracked. (When the POST itself
  raises there is no response object, and the exception of \<^verbatim>\<open>requests.post\<close> propagates.)
\<close>

theorem create_service_returns_response:
  assumes "net (length (sent st)) (Post d) = Inr r"
  shows "create_service net d st =
           (Inr r, st\<lparr>sent := sent st @ [Post d],
                      created_service_uuids := created_service_uuids st @ tracked_identifier r\<rparr>)
         \<and> (status_code r \<notin> {200, 201} \<or> (\<exists>e. extract_service_from_response r = Inl e) \<longrightarrow>
              create_service net d st = (Inr r, st\<lparr>sent := sent st @ [Post d]\<rparr>))"
proof -
  have "tracked_identifier r = []"
    if "status_code r \<notin> {200, 201} \<or> (\<exists>e. extract_service_from_response r = Inl e)"
    using that by (auto simp: tracked_identifier_def)
  then show ?thesis
    using create_service_answered[of net st d r] assms by auto
qed

theorem create_service_returns_response_witness:
  "create_service
      (\<lambda>n req. Inr \<lparr>status_code = 201, json_body = Some (JObj [(''uuid'', JStr ''u1'')])\<rparr>)
      (JObj [(''name'', JStr ''s'')]) \<lparr>created_service_uuids = [], sent = []\<rparr>
    = (Inr \<lparr>status_code = 201, json_body = Some (JObj [(''uuid'', JStr ''u1'')])\<rparr>,
       \<lparr>created_service_uuids = [JStr ''u1''], sent = [Post (JObj [(''name'', JStr ''s'')])]\<rparr>)
   \<and> create_service
      (\<lambda>n req. Inr \<lparr>status_code = 201, json_body = None\<rparr>)
      (JObj [(''name'', JStr ''s'')]) \<lparr>created_service_uuids = [], sent = []\<rparr>
    = (Inr \<lparr>status_code = 201, json_body = None\<rparr>,
       \<lparr>created_service_uuids = [], sent = [Post (JObj [(''name'', JStr ''s'')])]\<rparr>)"
  using
    create_service_returns_response
      [of "\<lambda>n req. Inr \<lparr>status_code = 201, json_body = Some (JObj [(''uuid'', JStr ''u1'')])\<rparr>"
          "\<lparr>created_service_uuids = [], sent = []\<rparr>" "JObj [(''name'', JStr ''s'')]"
          "\<lparr>status_code = 201, json_body = Some (JObj [(''uuid'', JStr ''u1'')])\<rparr>"]
    create_service_returns_response
      [of "\<lambda>n req. Inr \<lparr>status_code = 201, json_body = None\<rparr>"
          "\<lparr>created_service_uuids = [], sent = []\<rparr>" "JObj [(''name'', JStr ''s'')]"
          "\<lparr>status_code = 201, json_body = None\<rparr>"]
  by (simp add: tracked_identifier_def extract_service_from_response_def response_json_def)

section \<open>Cleanup at teardown\<close>

lemma cleanup_loop_result:
  "cleanup_loop net us st = (Inr (), st\<lparr>sent := sent st @ map Delete us\<rparr>)"
  by (induction us arbitrary: st)
     (auto simp: delete_quietly_def send_def split: sum.splits prod.splits)

text \<open>
  C5: whatever the service answers, and also when \<^verbatim>\<open>requests.delete\<close> raises, the
  teardown ends without an exception, and the requests it has issued are exactly one DELETE
  for each entry of the tracked list, in order; the tracked list itself is left as it was.
\<close>

theorem teardown_deletes_each_tracked:
  "teardown net st =
     (Inr (), st\<lparr>sent := sent st @ map Delete (created_service_uuids st)\<rparr>)"
  by (simp add: teardown_def cleanup_loop_result)

section \<open>The invariant of the tracked-resources list\<close>

lemma created_by_bound: "created_by net st n u \<Longrightarrow> n < length (sent st)"
  by (simp add: created_by_def)

lemma tracked_invariant_iff:
  "tracked_invariant net st \<longleftrightarrow>
     (\<forall>u \<in> set (created_service_uuids st). \<exists>n. created_by net st n u)"
  unfolding tracked_invariant_def using created_by_bound by blast

lemma created_by_later:
  assumes "created_by net st n u" and "sent st' = sent st @ rs"
  shows "created_by net st' n u"
  using assms by (auto simp: created_by_def nth_append)

lemma tracked_invariant_later:
  assumes "tracked_invariant net st" and "sent st' = sent st @ rs"
    and "created_service_uuids st' = created_service_uuids st"
  shows "tracked_invariant net st'"
  unfolding tracked_invariant_iff
proof
  fix u assume "u \<in> set (created_service_uuids st')"
  then have "u \<in> set (created_service_uuids st)"
    using assms(3) by simp
  then obtain n where "created_by net st n u"
    using assms(1) by (auto simp: tracked_invariant_iff)
  then have "created_by net st' n u"
    using assms(2) by (rule created_by_later)
  then show "\<exists>n. created_by net st' n u" ..
qed

lemma tracked_identifier_created_by:
  assumes "net (length (sent st)) (Post d) = Inr r" and "u \<in> set (tracked_identifier r)"
    and "sent st' = sent st @ [Post d]"
  shows "created_by net st' (length (sent st)) u"
proof -
  from assms(2) obtain kvs where ok: "status_code r \<in> {200, 201}"
    and ex: "extract_service_from_response r = Inr (JObj kvs)"
    and u: "map_of kvs ''uuid'' = Some u"
    unfolding tracked_identifier_mem by blast
  show ?thesis
    unfolding created_by_def using assms(1,3) ok ex u by simp
qed

lemma create_service_invariant:
  assumes "tracked_invariant net st"
  shows "tracked_invariant net (snd (create_service net d st))"
proof (cases "net (length (sent st)) (Post d)")
  case (Inl e)
  then have "snd (create_service net d st) = st\<lparr>sent := sent st @ [Post d]\<rparr>"
    by (simp add: create_service_raised)
  then show ?thesis
    using assms tracked_invariant_later[of net st _ "[Post d]"] by simp
next
  case (Inr r)
  let ?st' = "snd (create_service net d st)"
  have eq: "?st' = st\<lparr>sent := sent st @ [Post d],
                     created_service_uuids := created_service_uuids st @ tracked_identifier r\<rparr>"
    using Inr by (simp add: create_service_answered)
  show ?thesis
    unfolding tracked_invariant_iff
  proof
    fix u assume "u \<in> set (created_service_uuids ?st')"
    then consider "u \<in> set (created_service_uuids st)" | "u \<in> set (tracked_identifier r)"
      using eq by auto
    then show "\<exists>n. created_by net ?st' n u"
    proof cases
      case 1
      then obtain n where "created_by net st n u"
        using assms by (auto simp: tracked_invariant_iff)
      then have "created_by net ?st' n u"
        using created_by_later[of net st n u ?st' "[Post d]"] eq by simp
      then show ?thesis ..
    next
      case 2
      have "created_by net ?st' (length (sent st)) u"
        using tracked_identifier_created_by[of net st d r u ?st'] Inr 2 eq by simp
      then show ?thesis ..
    qed
  qed
qed

lemma reachable_tracked_invariant: "reachable net st \<Longrightarrow> tracked_invariant net st"
proof (induction rule: reachable.induct)
  case (fresh st)
  then show ?case by (simp add: tracked_invariant_def setup_fixture_def)
next
  case (created st d)
  then show ?case by (simp add: create_service_invariant)
next
  case (requested st req)
  then show ?case
    using tracked_invariant_later[of net st "snd (send net req st)" "[req]"]
    by (simp add: send_def)
next
  case (removed st u)
  then show ?case
    unfolding tracked_invariant_iff created_by_def
    by (auto dest: notin_set_remove1)
qed

lemma collection_without_uuid_untracked:
  assumes "status_code r \<in> {200, 201}" and "json_body r = Some (JObj kvs)"
    and "''uuid'' \<notin> set (map fst kvs)"
    and "map_of kvs ''data'' = Some (JArr (JObj m # xs))"
    and "''uuid'' \<notin> set (map fst m)"
  shows "tracked_identifier r = []"
proof -
  have "extract_service_from_response r = Inr (JObj m)"
    using extract_object[OF assms(1,2)] assms(3,4) by simp
  moreover have "map_of m ''uuid'' = None"
    using assms(5) by (simp add: map_of_eq_None_iff)
  ultimately show ?thesis
    by (simp add: tracked_identifier_def)
qed

text \<open>
  C9: in every state a test instance can reach, each entry \<open>u\<close> of
  \<^verbatim>\<open>created_service_uuids\<close> was put there for a POST of this test that was answered with
  status 200 or 201 and whose extracted record is an object holding \<open>u\<close> under \<^verbatim>\<open>uuid\<close>.
  Consequently a response of status 200 or 201 in the collection shape whose first element
  is an object without \<^verbatim>\<open>uuid\<close> is returned to the caller and nothing is tracked.
\<close>

theorem tracked_identifiers_come_from_created_records:
  "(reachable net st \<longrightarrow> tracked_invariant net st)
   \<and> (net (length (sent st)) (Post d) = Inr r \<and> status_code r \<in> {200, 201}
        \<and> json_body r = Some (JObj kvs) \<and> ''uuid'' \<notin> set (map fst kvs)
        \<and> map_of kvs ''data'' = Some (JArr (JObj m # xs)) \<and> ''uuid'' \<notin> set (map fst m)
      \<longrightarrow> create_service net d st = (Inr r, st\<lparr>sent := sent st @ [Post d]\<rparr>))"
proof (intro conjI impI)
  assume "reachable net st"
  then show "tracked_invariant net st" by (rule reachable_tracked_invariant)
next
  assume a: "net (length (sent st)) (Post d) = Inr r \<and> status_code r \<in> {200, 201}
        \<and> json_body r = Some (JObj kvs) \<and> ''uuid'' \<notin> set (map fst kvs)
        \<and> map_of kvs ''data'' = Some (JArr (JObj m # xs)) \<and> ''uuid'' \<notin> set (map fst m)"
  then have "tracked_identifier r = []"
    using collection_without_uuid_untracked[of r kvs m xs] by blast
  then show "create_service net d st = (Inr r, st\<lparr>sent := sent st @ [Post d]\<rparr>)"
    using a create_service_answered[of net st d r] by simp
qed

theorem tracked_identifiers_come_from_created_records_witness:
  "tracked_invariant
     (\<lambda>n req. Inr \<lparr>status_code = 201, json_body = Some (JObj [(''uuid'', JStr ''u1'')])\<rparr>)
     (snd (create_service
        (\<lambda>n req. Inr \<lparr>status_code = 201, json_body = Some (JObj [(''uuid'', JStr ''u1'')])\<rparr>)
        (JObj []) (setup_fixture \<lparr>created_service_uuids = [], sent = []\<rparr>)))
   \<and> create_service
     (\<lambda>n req. Inr \<lparr>status_code = 200,
                     json_body = Some (JObj [(''data'', JArr [JObj [(''name'', JStr ''s'')]])])\<rparr>)
     (JObj []) \<lparr>created_service_uuids = [], sent = []\<rparr>
     = (Inr \<lparr>status_code = 200,
              json_body = Some (JObj [(''data'', JArr [JObj [(''name'', JStr ''s'')]])])\<rparr>,
        \<lparr>created_service_uuids = [], sent = [Post (JObj [])]\<rparr>)"
proof -
  have reach: "reachable
     (\<lambda>n req. Inr \<lparr>status_code = 201, json_body = Some (JObj [(''uuid'', JStr ''u1'')])\<rparr>)
     (snd (create_service
        (\<lambda>n req. Inr \<lparr>status_code = 201, json_body = Some (JObj [(''uuid'', JStr ''u1'')])\<rparr>)
        (JObj []) (setup_fixture \<lparr>created_service_uuids = [], sent = []\<rparr>)))"
    by (intro reachable.created reachable.fresh)
  show ?thesis
    using reach
      tracked_identifiers_come_from_created_records
        [of "\<lambda>n req. Inr \<lparr>status_code = 201,
               json_body = Some (JObj [(''uuid'', JStr ''u1'')])\<rparr>"
            "snd (create_service
               (\<lambda>n req. Inr \<lparr>status_code = 201,
                   json_body = Some (JObj [(''uuid'', JStr ''u1'')])\<rparr>)
               (JObj []) (setup_fixture \<lparr>created_service_uuids = [], sent = []\<rparr>))"
            "JObj []" "\<lparr>status_code = 201, json_body = None\<rparr>" "[]" "[]" "[]"]
      tracked_identifiers_come_from_created_records
        [of "\<lambda>n req. Inr \<lparr>status_code = 200,
               json_body = Some (JObj [(''data'', JArr [JObj [(''name'', JStr ''s'')]])])\<rparr>"
            "\<lparr>created_service_uuids = [], sent = []\<rparr>"
            "JObj []"
            "\<lparr>status_code = 200,
               json_body = Some (JObj [(''data'', JArr [JObj [(''name'', JStr ''s'')]])])\<rparr>"
            "[(''data'', JArr [JObj [(''name'', JStr ''s'')]])]"
            "[(''name'', JStr ''s'')]" "[]"]
    by simp
qed

section \<open>Asserting a validation error\<close>

lemma validation_body_Inr:
  "validation_body r f = Inr v \<longleftrightarrow>
     (\<exists>kvs e. json_body r = Some (JObj kvs) \<and> map_of kvs ''errors'' = Some e \<and>
        (if truthy f then \<exists>m. e = JObj m \<and> map_of m (the f) = Some v else v = e))"
  unfolding validation_body_def response_json_def
  by (cases "json_body r"; cases "truthy f")
     (auto simp: py_getitem_Inr py_in_JObj simp del: py_in.simps
        split: sum.splits bool.splits option.splits)

lemma validation_body_exn: "validation_body r f = Inl e \<Longrightarrow> is_Exception e"
  unfolding validation_body_def response_json_def
  by (auto split: sum.splits bool.splits option.splits if_splits
        dest: py_in_exn py_getitem_exn py_keys_exn)

lemma assert_validation_error_Inr:
  "assert_validation_error r f = Inr v \<longleftrightarrow>
     status_code r = 422 \<and>
     (\<exists>kvs e. json_body r = Some (JObj kvs) \<and> map_of kvs ''errors'' = Some e \<and>
        (if truthy f then \<exists>m. e = JObj m \<and> map_of m (the f) = Some v else v = e))"
  unfolding validation_body_Inr[symmetric]
  by (auto simp: assert_validation_error_def split: sum.splits)

lemma assert_validation_error_422:
  assumes "status_code r = 422"
  shows "assert_validation_error r f =
     (case validation_body r f of
        Inl e \<Rightarrow> Inl (Failed (Could_not_parse e))
      | Inr v \<Rightarrow> Inr v)"
  using assms
  by (auto simp: assert_validation_error_def split: sum.splits dest: validation_body_exn)

lemma assert_validation_error_status:
  "status_code r \<noteq> 422 \<Longrightarrow>
     assert_validation_error r f = Inl (AssertionError (Expected_422 (status_code r)))"
  by (simp add: assert_validation_error_def)

lemma assert_validation_error_unparsed:
  "status_code r = 422 \<Longrightarrow> json_body r = None \<Longrightarrow>
     assert_validation_error r f = Inl (Failed (Could_not_parse JSONDecodeError))"
  by (simp add: assert_validation_error_422 validation_body_def response_json_def)

lemma assert_validation_error_no_errors_key:
  assumes "status_code r = 422" and "json_body r = Some d" and "py_in ''errors'' d = Inr False"
  shows "assert_validation_error r f =
      Inl (Failed (Could_not_parse (AssertionError (Errors_field_missing d))))"
  using assms by (simp add: assert_validation_error_422 validation_body_def response_json_def)

lemma assert_validation_error_no_field:
  assumes "status_code r = 422" and "json_body r = Some (JObj kvs)"
    and "map_of kvs ''errors'' = Some (JObj m)" and "truthy f" and "the f \<notin> set (map fst m)"
  shows "assert_validation_error r f =
      Inl (Failed (Could_not_parse
             (AssertionError (Expected_field_error (the f) (map fst m)))))"
proof -
  have "map_of m (the f) = None"
    using assms(5) by (simp add: map_of_eq_None_iff)
  then show ?thesis
    using assms(1-4)
    by (simp add: assert_validation_error_422 validation_body_def response_json_def
          py_in_JObj del: py_in.simps)
qed

text \<open>
  C4, as stated, lets the function pass only on an \<^verbatim>\<open>errors\<close> mapping and makes every
  supplied field a required key. The code tests \<^verbatim>\<open>if expected_field:\<close>, so the empty
  string counts as no field; and without a field the value under \<^verbatim>\<open>errors\<close> is
  returned as it is, mapping or not.
\<close>

theorem assert_validation_error_counterexample:
  "assert_validation_error
     \<lparr>status_code = 422, json_body = Some (JObj [(''errors'', JObj [])])\<rparr> (Some [])
     = Inr (JObj [])
   \<and> assert_validation_error
     \<lparr>status_code = 422, json_body = Some (JObj [(''errors'', JArr [JStr ''bad''])])\<rparr> None
     = Inr (JArr [JStr ''bad''])"
  by (simp add: assert_validation_error_def validation_body_def response_json_def)

text \<open>
  C4, amended: \<^verbatim>\<open>assert_validation_error\<close> returns a value exactly when the status is
  422 and the decoded body is an object with the key \<^verbatim>\<open>errors\<close>, where, for a
  non-empty field name, the value under \<^verbatim>\<open>errors\<close> is a mapping that has the field as
  a key, and the field's entry is what is returned; with no field, or the empty string, the
  value under \<^verbatim>\<open>errors\<close> is returned whole, whatever it is. Any other status fails
  the status assertion, and a body that does not parse is a harness failure, not a pass.
\<close>

theorem assert_validation_error_result:
  "(assert_validation_error r f = Inr v \<longleftrightarrow>
      status_code r = 422 \<and>
      (\<exists>kvs e. json_body r = Some (JObj kvs) \<and> map_of kvs ''errors'' = Some e \<and>
         (if truthy f then \<exists>m. e = JObj m \<and> map_of m (the f) = Some v else v = e)))
   \<and> (status_code r \<noteq> 422 \<longrightarrow>
        assert_validation_error r f = Inl (AssertionError (Expected_422 (status_code r))))
   \<and> (status_code r = 422 \<and> json_body r = None \<longrightarrow>
        assert_validation_error r f = Inl (Failed (Could_not_parse JSONDecodeError)))"
  using assert_validation_error_Inr[of r f v] assert_validation_error_status[of r f]
    assert_validation_error_unparsed[of r f]
  by blast

theorem assert_validation_error_result_witness:
  "assert_validation_error
     \<lparr>status_code = 422,
      json_body = Some (JObj [(''errors'', JObj [(''price'', JArr [JStr ''too small''])])])\<rparr>
     (Some ''price'')
     = Inr (JArr [JStr ''too small''])
   \<and> assert_validation_error \<lparr>status_code = 200, json_body = Some (JObj [])\<rparr> None
     = Inl (AssertionError (Expected_422 200))
   \<and> assert_validation_error \<lparr>status_code = 422, json_body = None\<rparr> None
     = Inl (Failed (Could_not_parse JSONDecodeError))"
  using
    assert_validation_error_result
      [of "\<lparr>status_code = 422,
             json_body = Some (JObj [(''errors'', JObj [(''price'', JArr [JStr ''too small''])])])\<rparr>"
          "Some ''price''" "JArr [JStr ''too small'']"]
    assert_validation_error_result
      [of "\<lparr>status_code = 200, json_body = Some (JObj [])\<rparr>" None JNull]
    assert_validation_error_result
      [of "\<lparr>status_code = 422, json_body = None\<rparr>" None JNull]
  by simp

text \<open>
  C10: once the status is 422, no failure leaves \<^verbatim>\<open>assert_validation_error\<close> as an
  assertion error. The two checks made after the status check sit inside the
  \<^verbatim>\<open>try\<close>: a body without \<^verbatim>\<open>errors\<close>, and an \<^verbatim>\<open>errors\<close> mapping without the
  requested field, both end in the \<^verbatim>\<open>pytest.fail\<close> of the handler, which quotes the
  assertion error it caught.
\<close>

theorem validation_checks_fail_through_handler:
  assumes "status_code r = 422"
  shows "(\<forall>msg. assert_validation_error r f \<noteq> Inl (AssertionError msg))
   \<and> ((\<exists>v. assert_validation_error r f = Inr v)
        \<or> (\<exists>e. is_Exception e \<and> assert_validation_error r f = Inl (Failed (Could_not_parse e))))
   \<and> (json_body r = Some d \<and> py_in ''errors'' d = Inr False \<longrightarrow>
        assert_validation_error r f =
          Inl (Failed (Could_not_parse (AssertionError (Errors_field_missing d)))))
   \<and> (truthy f \<and> json_body r = Some (JObj kvs) \<and> map_of kvs ''errors'' = Some (JObj m)
        \<and> the f \<notin> set (map fst m) \<longrightarrow>
        assert_validation_error r f =
          Inl (Failed (Could_not_parse
                 (AssertionError (Expected_field_error (the f) (map fst m))))))"
proof -
  have split: "(\<exists>v. assert_validation_error r f = Inr v)
        \<or> (\<exists>e. is_Exception e \<and> assert_validation_error r f = Inl (Failed (Could_not_parse e)))"
  proof (cases "validation_body r f")
    case (Inl e)
    then show ?thesis
      using assms validation_body_exn[of r f e] by (simp add: assert_validation_error_422)
  next
    case (Inr v)
    then show ?thesis
      using assms by (simp add: assert_validation_error_422)
  qed
  then have "\<forall>msg. assert_validation_error r f \<noteq> Inl (AssertionError msg)"
    by auto
  then show ?thesis
    using split assms assert_validation_error_no_errors_key[of r d f]
      assert_validation_error_no_field[of r kvs m f]
    by blast
qed

theorem validation_checks_fail_through_handler_witness:
  "assert_validation_error
     \<lparr>status_code = 422, json_body = Some (JObj [(''message'', JStr ''no'')])\<rparr> None
     = Inl (Failed (Could_not_parse
              (AssertionError (Errors_field_missing (JObj [(''message'', JStr ''no'')])))))
   \<and> assert_validation_error
     \<lparr>status_code = 422,
      json_body = Some (JObj [(''errors'', JObj [(''name'', JArr [JStr ''empty''])])])\<rparr>
     (Some ''price'')
     = Inl (Failed (Could_not_parse (AssertionError (Expected_field_error ''price'' [''name'']))))"
  using
    validation_checks_fail_through_handler
      [of "\<lparr>status_code = 422, json_body = Some (JObj [(''message'', JStr ''no'')])\<rparr>"
          None "JObj [(''message'', JStr ''no'')]" "[]" "[]"]
    validation_checks_fail_through_handler
      [of "\<lparr>status_code = 422,
             json_body = Some (JObj [(''errors'', JObj [(''name'', JArr [JStr ''empty''])])])\<rparr>"
          "Some ''price''" "JNull"
          "[(''errors'', JObj [(''name'', JArr [JStr ''empty''])])]"
          "[(''name'', JArr [JStr ''empty''])]"]
  by simp

section \<open>The tax calculator\<close>

lemma calculate_tax_float:
  "calculate_tax bi (JFloat x) = Inr (fround bi (fmul bi x (tax_rate DB_LIMITS)) 2)"
  by (simp add: calculate_tax_def)

lemma calculate_gross_float:
  "calculate_gross bi (JFloat x) =
     Inr (fround bi (fadd bi x (fround bi (fmul bi x (tax_rate DB_LIMITS)) 2)) 2)"
  by (simp add: calculate_gross_def calculate_tax_def)

lemma calculate_int_in_range:
  assumes "\<bar>n\<bar> < 2 ^ 1024 - 2 ^ 970"
  shows "calculate_tax bi (JInt n) =
           Inr (fround bi (fmul bi (fnearest bi n) (tax_rate DB_LIMITS)) 2)"
    and "calculate_gross bi (JInt n) =
           Inr (fround bi (fadd bi (fnearest bi n)
                  (fround bi (fmul bi (fnearest bi n) (tax_rate DB_LIMITS)) 2)) 2)"
  using assms by (simp_all add: calculate_gross_def calculate_tax_def int_to_float_def)

lemma calculate_int_out_of_range:
  assumes "\<not> \<bar>n\<bar> < 2 ^ 1024 - 2 ^ 970"
  shows "calculate_tax bi (JInt n) = Inl OverflowError"
    and "calculate_gross bi (JInt n) = Inl OverflowError"
  using assms by (simp_all add: calculate_gross_def calculate_tax_def int_to_float_def)

text \<open>
  C2, as stated, makes both functions total on every numeric input. An \<^verbatim>\<open>int\<close> is
  numeric, and \<^verbatim>\<open>price * 0.22\<close> converts it to a float first: for
  \<^verbatim>\<open>10 ** 400\<close> that conversion raises \<^verbatim>\<open>OverflowError\<close>, in both functions, before
  any float operation is reached.
\<close>

theorem calculate_tax_total_counterexample:
  "calculate_tax exact_builtins (JInt (10 ^ 400)) = Inl OverflowError
   \<and> calculate_gross exact_builtins (JInt (10 ^ 400)) = Inl OverflowError"
  by (simp add: calculate_gross_def calculate_tax_def int_to_float_def)

text \<open>
  C2, amended: for every float \<open>p\<close>, negative values and the non-finite ones included, and for
  every integer \<open>p\<close> with \<open>|p| < 2\<^sup>1\<^sup>0\<^sup>2\<^sup>4 - 2\<^sup>9\<^sup>7\<^sup>0\<close>, \<^verbatim>\<open>calculate_tax(p)\<close> returns
  \<^verbatim>\<open>round(p * 0.22, 2)\<close> and \<^verbatim>\<open>calculate_gross(p)\<close> returns
  \<^verbatim>\<open>round(p + calculate_tax(p), 2)\<close>, that is
  \<^verbatim>\<open>round(p + round(p * 0.22, 2), 2)\<close>, without an error; for an integer outside that
  range both raise \<^verbatim>\<open>OverflowError\<close>. The product, the sum and the rounding are those of
  Python's floats, whatever they compute.
\<close>

theorem calculate_tax_and_gross_values:
  "calculate_tax bi (JFloat x) = Inr (fround bi (fmul bi x (Finite float_0_22)) 2)
   \<and> calculate_gross bi (JFloat x) =
       Inr (fround bi (fadd bi x (fround bi (fmul bi x (Finite float_0_22)) 2)) 2)
   \<and> (\<bar>n\<bar> < 2 ^ 1024 - 2 ^ 970 \<longrightarrow>
        calculate_tax bi (JInt n) =
          Inr (fround bi (fmul bi (fnearest bi n) (Finite float_0_22)) 2)
        \<and> calculate_gross bi (JInt n) =
          Inr (fround bi (fadd bi (fnearest bi n)
                 (fround bi (fmul bi (fnearest bi n) (Finite float_0_22)) 2)) 2))
   \<and> (\<not> \<bar>n\<bar> < 2 ^ 1024 - 2 ^ 970 \<longrightarrow>
        calculate_tax bi (JInt n) = Inl OverflowError
        \<and> calculate_gross bi (JInt n) = Inl OverflowError)
   \<and> calculate_gross bi p =
       (case calculate_tax bi p of
          Inl e \<Rightarrow> Inl e
        | Inr tax \<Rightarrow>
            (case float_operand bi p of
               Inl e \<Rightarrow> Inl e
             | Inr y \<Rightarrow> Inr (fround bi (fadd bi y tax) 2)))"
proof -
  have rate: "tax_rate DB_LIMITS = Finite float_0_22"
    by (simp add: DB_LIMITS_def)
  show ?thesis
    using calculate_tax_float[of bi x] calculate_gross_float[of bi x]
      calculate_int_in_range[of n bi] calculate_int_out_of_range[of n bi]
    unfolding rate by (simp add: calculate_gross_def)
qed

theorem calculate_tax_and_gross_values_witness:
  "calculate_tax exact_builtins (JInt 100) = Inr (Finite (100 * float_0_22))
   \<and> calculate_gross exact_builtins (JInt 100) = Inr (Finite (100 + 100 * float_0_22))
   \<and> calculate_tax exact_builtins (JInt (2 ^ 1024)) = Inl OverflowError
   \<and> calculate_gross exact_builtins (JInt (2 ^ 1024)) = Inl OverflowError"
  using calculate_tax_and_gross_values[of exact_builtins "Finite 0" 100 JNull]
    calculate_tax_and_gross_values[of exact_builtins "Finite 0" "2 ^ 1024" JNull]
  by (simp add: exact_builtins_def)

section \<open>Running a test body\<close>























section \<open>The minimum price\<close>




section \<open>The prices that are created and checked\<close>













section \<open>The boundary cases\<close>








end
